theory Spec2Isabelle
  imports Complex_Main
begin

section \<open>Room media feed (src/screens/ChatRoomScreen.tsx)\<close>

text \<open>
  The screen keeps the feed in React state. The parts of that state the feed handlers
  read or write are \<open>images\<close> (the list shown, newest first), \<open>selectedImages\<close>
  (a \<open>Set<string>\<close> of selected ids) and the toasts raised by \<open>showToast\<close>, which
  are kept as a log of messages. A \<open>RoomImage\<close> has the optional fields \<open>id\<close> and
  \<open>uploaded_at\<close>; the field \<open>id\<close> is called \<open>image_id\<close> here, since \<open>id\<close> is
  the identity function of HOL.
\<close>

record RoomImage =
  image_id :: "string option"
  room_id :: string
  image_url :: string
  uploaded_by :: string
  uploaded_at :: "string option"

record screen_state =
  images :: "RoomImage list"
  selectedImages :: "string set"
  toasts :: "string list"

text \<open>
  \<open>showToast(message)\<close>: on either platform one message is shown; the model appends it
  to the log.
\<close>

definition showToast :: "string \<Rightarrow> screen_state \<Rightarrow> screen_state" where
  "showToast message st = st\<lparr>toasts := toasts st @ [message]\<rparr>"

text \<open>
  \<open>setupRealtimeSubscription\<close> is a function of the component body, called from the
  effect that depends on \<open>room.id\<close> only (and from its own retry timer). The event
  handler it registers is a closure over the constants of the render in which the effect
  ran: \<open>userName\<close>, \<open>room\<close> and \<open>selectedImages\<close>. The updater functions passed to
  \<open>setImages\<close> and \<open>setSelectedImages\<close> receive the current state (\<open>prevImages\<close>,
  \<open>prev\<close>); the test \<open>selectedImages.has(deletedImageId)\<close> reads the captured
  constant. \<open>toggleImageSelection\<close> builds a new \<open>Set\<close> at every change, so the captured
  one keeps the value it had when the subscription was set up.
\<close>

record subscription_closure =
  userName :: string
  room_created_by :: string
  captured_selectedImages :: "string set"

definition setupRealtimeSubscription ::
  "string \<Rightarrow> string \<Rightarrow> screen_state \<Rightarrow> subscription_closure" where
  "setupRealtimeSubscription user creator st =
     \<lparr>userName = user, room_created_by = creator,
      captured_selectedImages = selectedImages st\<rparr>"

definition toggleImageSelection :: "string \<Rightarrow> screen_state \<Rightarrow> screen_state" where
  "toggleImageSelection imageId st =
     (if imageId \<in> selectedImages st
      then st\<lparr>selectedImages := selectedImages st - {imageId}\<rparr>
      else st\<lparr>selectedImages := insert imageId (selectedImages st)\<rparr>)"

text \<open>
  The payload of a change-feed event: \<open>INSERT\<close> carries \<open>payload.new\<close>, \<open>DELETE\<close>
  carries \<open>payload.old.id\<close> when it is there, and the subscription (event \<open>'*'\<close>) also
  delivers updates, which the handler ignores.
\<close>

datatype payload = INSERT RoomImage | DELETE "string option" | UPDATE

definition on_insert :: "subscription_closure \<Rightarrow> RoomImage \<Rightarrow> screen_state \<Rightarrow> screen_state" where
  "on_insert cl newImage st =
     (let exists = list_ex (\<lambda>img. image_id img = image_id newImage) (images st)
      in if \<not> exists
         then let st1 = (if uploaded_by newImage \<noteq> userName cl
                         then showToast (uploaded_by newImage @ '' shared a new image'') st
                         else st)
              in st1\<lparr>images := newImage # images st\<rparr>
         else st)"

definition on_delete :: "subscription_closure \<Rightarrow> string \<Rightarrow> screen_state \<Rightarrow> screen_state" where
  "on_delete cl deletedImageId st =
     (let deletedImage = find (\<lambda>img. image_id img = Some deletedImageId) (images st);
          st1 = (case deletedImage of
                   None \<Rightarrow> st
                 | Some d \<Rightarrow>
                     if uploaded_by d \<noteq> userName cl
                     then let deleterName =
                                (if uploaded_by d = room_created_by cl then ''the room owner''
                                 else if uploaded_by d \<noteq> [] then uploaded_by d
                                 else ''someone'')
                          in showToast (''An image was deleted by '' @ deleterName) st
                     else st);
          st2 = (if deletedImageId \<in> captured_selectedImages cl
                 then st1\<lparr>selectedImages := selectedImages st1 - {deletedImageId}\<rparr>
                 else st1)
      in st2\<lparr>images := filter (\<lambda>img. image_id img \<noteq> Some deletedImageId) (images st)\<rparr>)"

text \<open>
  The handler itself. \<open>payload.old && payload.old.id\<close> is false for a missing id and
  for the empty string.
\<close>

fun realtime_event :: "subscription_closure \<Rightarrow> payload \<Rightarrow> screen_state \<Rightarrow> screen_state" where
  "realtime_event cl (INSERT newImage) st = on_insert cl newImage st"
| "realtime_event cl (DELETE old_id) st =
     (case old_id of
        None \<Rightarrow> st
      | Some deletedImageId \<Rightarrow> if deletedImageId \<noteq> [] then on_delete cl deletedImageId st else st)"
| "realtime_event cl UPDATE st = st"

text \<open>
  \<open>handleDeleteImage\<close>: the two guards, the confirmation dialog (\<open>confirmed\<close> is the
  user's answer, \<open>picked\<close> the source's parameter \<open>image\<close>), and the removal
  from the list, which happens before the request to the server is answered. Nothing
  else is recorded about the removed id.
\<close>

definition handleDeleteImage ::
  "string \<Rightarrow> bool \<Rightarrow> RoomImage \<Rightarrow> bool \<Rightarrow> screen_state \<Rightarrow> screen_state" where
  "handleDeleteImage user isRoomCreator picked confirmed st =
     (if uploaded_by picked \<noteq> user \<and> \<not> isRoomCreator
      then showToast ''You can only delete images you uploaded'' st
      else case image_id picked of
             None \<Rightarrow> showToast ''Cannot delete this image: missing ID'' st
           | Some imageId \<Rightarrow>
               if imageId = [] then showToast ''Cannot delete this image: missing ID'' st
               else if confirmed
               then st\<lparr>images := filter (\<lambda>img. image_id img \<noteq> Some imageId) (images st)\<rparr>
               else st)"

text \<open>
  The continuation of \<open>deleteRoomImage(imageId)\<close>: on \<open>true\<close> a toast, on \<open>false\<close> or
  a rejection a toast and \<open>loadImages\<close>, which replaces the list by what the server
  returns.
\<close>

datatype delete_outcome = DeleteSucceeded | DeleteRefused | DeleteRejected

definition deleteRoomImage_settled ::
  "delete_outcome \<Rightarrow> RoomImage list \<Rightarrow> screen_state \<Rightarrow> screen_state" where
  "deleteRoomImage_settled outcome roomImages st =
     (case outcome of
        DeleteSucceeded \<Rightarrow> showToast ''Image deleted successfully'' st
      | DeleteRefused \<Rightarrow> (showToast ''Could not delete the image'' st)\<lparr>images := roomImages\<rparr>
      | DeleteRejected \<Rightarrow>
          (showToast ''An error occurred while deleting the image'' st)\<lparr>images := roomImages\<rparr>)"

section \<open>Change-feed subscription (src/screens/ChatRoomScreen.tsx)\<close>

text \<open>
  The callback given to \<open>.subscribe\<close>. On \<open>CHANNEL_ERROR\<close> it declares
  \<open>let retryCount = 0\<close> and \<open>const maxRetries = 3\<close> in the callback's own block, tests
  \<open>retryCount < maxRetries\<close>, computes the delay \<open>Math.pow(2, retryCount) * 2000\<close> and
  starts a timer that calls \<open>setupRealtimeSubscription\<close> again. The result is the delay
  of the timer it starts, if any.
\<close>

datatype channel_status = SUBSCRIBED | CHANNEL_ERROR | TIMED_OUT | CLOSED

definition subscribe_callback :: "channel_status \<Rightarrow> nat option" where
  "subscribe_callback status =
     (if status = SUBSCRIBED then None
      else if status = CHANNEL_ERROR
      then (let retryCount = (0::nat); maxRetries = (3::nat)
            in if retryCount < maxRetries then Some (2 ^ retryCount * 2000) else None)
      else None)"

text \<open>
  A run of the manager: the statuses reported by the channel that is open at the time,
  one after the other; every timer started re-runs \<open>setupRealtimeSubscription\<close>, whose
  channel reports the next status. The result lists the delays of the reconnect attempts.
\<close>

fun reconnect_attempts :: "channel_status list \<Rightarrow> nat list" where
  "reconnect_attempts [] = []"
| "reconnect_attempts (status # later) =
     (case subscribe_callback status of
        None \<Rightarrow> reconnect_attempts later
      | Some delay \<Rightarrow> delay # reconnect_attempts later)"

section \<open>Local cache store (storage module, src/unnamed/part_004)\<close>

record CachedImage =
  url :: string
  cachedPath :: "string option"
  timestamp :: int
  width :: "int option"
  height :: "int option"
  hash :: "string option"

definition CACHE_EXPIRATION :: int where
  "CACHE_EXPIRATION = 7 * 24 * 60 * 60 * 1000"

text \<open>
  What reading the key \<open>image_cache\<close> gives: the read (or \<open>JSON.parse\<close>) throws, there
  is no item, or there is the stored object, a dictionary from URL to entry.
\<close>

datatype stored_cache = ReadThrows | NoItem | Item "string \<rightharpoonup> CachedImage"

definition getCachedImages :: "stored_cache \<Rightarrow> (string \<rightharpoonup> CachedImage)" where
  "getCachedImages stored =
     (case stored of ReadThrows \<Rightarrow> Map.empty | NoItem \<Rightarrow> Map.empty | Item cacheData \<Rightarrow> cacheData)"

text \<open>\<open>now\<close> is the value of \<open>Date.now()\<close>, in milliseconds.\<close>

definition getCachedImage :: "int \<Rightarrow> stored_cache \<Rightarrow> string \<Rightarrow> CachedImage option" where
  "getCachedImage now stored u =
     (case getCachedImages stored u of
        None \<Rightarrow> None
      | Some cachedImage \<Rightarrow>
          if now - timestamp cachedImage < CACHE_EXPIRATION then Some cachedImage else None)"

section \<open>Bulk download (src/lib/imageUtils.ts)\<close>

text \<open>
  \<open>getCachedImageUri\<close>: the cached path when the entry is valid, has a non-empty path
  and \<open>FileSystem.getInfoAsync\<close> says the file exists; the URL itself otherwise, also when
  \<open>getInfoAsync\<close> throws (\<open>None\<close>).
\<close>

definition getCachedImageUri ::
  "int \<Rightarrow> stored_cache \<Rightarrow> (string \<Rightarrow> bool option) \<Rightarrow> string \<Rightarrow> string" where
  "getCachedImageUri now stored file_exists u =
     (case getCachedImage now stored u of
        None \<Rightarrow> u
      | Some cachedImage \<Rightarrow>
          (case cachedPath cachedImage of
             None \<Rightarrow> u
           | Some path \<Rightarrow>
               if path = [] then u
               else (case file_exists path of
                       None \<Rightarrow> u
                     | Some pathExists \<Rightarrow> if pathExists then path else u)))"

text \<open>
  What the platform answers while one image is processed. A call that throws is
  \<open>None\<close> (or \<open>False\<close> where the value returned is not used).
\<close>

datatype album_lookup = GetAlbumThrows | NoAlbum | Album

record item_env =
  clock :: int
  image_cache :: stored_cache
  file_exists :: "string \<Rightarrow> bool option"
  download_status :: "int option"
  createAsset_ok :: bool
  getAlbum :: album_lookup
  createAlbum_ok :: bool
  addAssets_ok :: bool

datatype platform_call =
    RequestPermissions
  | CacheLookup string
  | DownloadAsync string string
  | CreateAsset string
  | GetAlbum
  | CreateAlbum
  | AddAssetsToAlbum

text \<open>Decimal digits of a number, for the file name built from \<open>Date.now()\<close>.\<close>

function decimal :: "nat \<Rightarrow> string" where
  "decimal n =
     (if n < 10 then [char_of (48 + n)] else decimal (n div 10) @ [char_of (48 + n mod 10)])"
  by pat_completeness auto
termination
  by (relation "measure (\<lambda>n. n)") auto

text \<open>\<open>url.split('/').pop()\<close>: what follows the last slash.\<close>

definition last_segment :: "string \<Rightarrow> string" where
  "last_segment u = rev (takeWhile (\<lambda>c. c \<noteq> CHR ''/'') (rev u))"

text \<open>
  The body of the inner \<open>try\<close> for one image: \<open>Inl\<close> is an exception thrown inside
  it, \<open>Inr False\<close> the \<open>continue\<close> after a download whose status is not 200,
  \<open>Inr True\<close> reaching \<open>successCount++\<close>. The second component lists the platform
  calls made.
\<close>

definition save_to_library ::
  "bool \<Rightarrow> item_env \<Rightarrow> string \<Rightarrow> (string + bool) \<times> platform_call list" where
  "save_to_library android env fileUri =
     (if \<not> createAsset_ok env then (Inl ''createAssetAsync'', [CreateAsset fileUri])
      else if android
      then (case getAlbum env of
              GetAlbumThrows \<Rightarrow> (Inl ''getAlbumAsync'', [CreateAsset fileUri, GetAlbum])
            | NoAlbum \<Rightarrow>
                if createAlbum_ok env
                then (Inr True, [CreateAsset fileUri, GetAlbum, CreateAlbum])
                else (Inl ''createAlbumAsync'', [CreateAsset fileUri, GetAlbum, CreateAlbum])
            | Album \<Rightarrow>
                if addAssets_ok env
                then (Inr True, [CreateAsset fileUri, GetAlbum, AddAssetsToAlbum])
                else (Inl ''addAssetsToAlbumAsync'',
                      [CreateAsset fileUri, GetAlbum, AddAssetsToAlbum]))
      else (Inr True, [CreateAsset fileUri]))"

definition process_image ::
  "bool \<Rightarrow> string \<Rightarrow> item_env \<Rightarrow> nat \<Rightarrow> RoomImage \<Rightarrow> (string + bool) \<times> platform_call list" where
  "process_image android cacheDirectory env successCount img =
     (let fileUri = getCachedImageUri (clock env) (image_cache env) (file_exists env) (image_url img)
      in if fileUri = image_url img
         then let filename =
                    (if last_segment (image_url img) \<noteq> [] then last_segment (image_url img)
                     else ''download-'' @ decimal (nat (clock env)) @ ''-'' @ decimal successCount
                          @ ''.jpg'');
                  tempFilePath = cacheDirectory @ filename
              in (case download_status env of
                    None \<Rightarrow>
                      (Inl ''downloadAsync'',
                       [CacheLookup (image_url img), DownloadAsync (image_url img) tempFilePath])
                  | Some status \<Rightarrow>
                      if status \<noteq> 200
                      then (Inr False,
                            [CacheLookup (image_url img), DownloadAsync (image_url img) tempFilePath])
                      else (let (r, calls) = save_to_library android env tempFilePath
                            in (r, [CacheLookup (image_url img),
                                    DownloadAsync (image_url img) tempFilePath] @ calls)))
         else (let (r, calls) = save_to_library android env fileUri
               in (r, CacheLookup (image_url img) # calls)))"

text \<open>
  The \<open>for\<close> loop with its \<open>try\<close>/\<open>catch\<close>: an exception is logged and the loop goes
  on with the next image. \<open>envs i\<close> is what the platform answers for the image at
  position \<open>i\<close>.
\<close>

fun download_loop ::
  "bool \<Rightarrow> string \<Rightarrow> (nat \<Rightarrow> item_env) \<Rightarrow> nat \<Rightarrow> RoomImage list \<Rightarrow> nat \<Rightarrow> nat \<times> platform_call list" where
  "download_loop android cacheDirectory envs i [] successCount = (successCount, [])"
| "download_loop android cacheDirectory envs i (img # rest) successCount =
     (let (r, calls) = process_image android cacheDirectory (envs i) successCount img;
          successCount' = (case r of
                             Inl error \<Rightarrow> successCount
                           | Inr counted \<Rightarrow> if counted then successCount + 1 else successCount);
          (n, later) = download_loop android cacheDirectory envs (i + 1) rest successCount'
      in (n, calls @ later))"

record download_result =
  success :: bool
  count :: nat
  permissionDenied :: "bool option"

datatype permission_response = PermissionThrows | PermissionStatus string

text \<open>
  The body of the outer \<open>try\<close> (\<open>Inl\<close>: an exception leaves it) and the function with
  its \<open>catch\<close>.
\<close>

definition downloadMultipleImages_body ::
  "bool \<Rightarrow> string \<Rightarrow> permission_response \<Rightarrow> (nat \<Rightarrow> item_env) \<Rightarrow> RoomImage list
   \<Rightarrow> (string + download_result) \<times> platform_call list" where
  "downloadMultipleImages_body android cacheDirectory permission envs imgs =
     (case permission of
        PermissionThrows \<Rightarrow> (Inl ''requestPermissionsAsync'', [RequestPermissions])
      | PermissionStatus status \<Rightarrow>
          if status \<noteq> ''granted''
          then (Inr \<lparr>success = False, count = 0, permissionDenied = Some True\<rparr>,
                [RequestPermissions])
          else (let (successCount, calls) = download_loop android cacheDirectory envs 0 imgs 0
                in (Inr \<lparr>success = 0 < successCount, count = successCount,
                         permissionDenied = None\<rparr>,
                    RequestPermissions # calls)))"

definition downloadMultipleImages ::
  "bool \<Rightarrow> string \<Rightarrow> permission_response \<Rightarrow> (nat \<Rightarrow> item_env) \<Rightarrow> RoomImage list
   \<Rightarrow> download_result \<times> platform_call list" where
  "downloadMultipleImages android cacheDirectory permission envs imgs =
     (case downloadMultipleImages_body android cacheDirectory permission envs imgs of
        (Inl error, calls) \<Rightarrow> (\<lparr>success = False, count = 0, permissionDenied = None\<rparr>, calls)
      | (Inr result, calls) \<Rightarrow> (result, calls))"

section \<open>Bulk delete (src/lib/cloudinary.ts, src/lib/supabase.ts)\<close>

text \<open>
  \<open>deleteMultipleFromCloudinary\<close>. The argument may be \<open>null\<close> or \<open>undefined\<close>
  (\<open>None\<close>), which \<open>!imageUrls\<close> tests. \<open>getCloudinaryPublicId\<close> matches a regular
  expression against the URL; it is a parameter here, \<open>publicId_of\<close>, and an empty or
  missing result is skipped. The request goes to the edge function; its answer is that
  \<open>fetch\<close> throws, or \<open>response.ok\<close> with the parsed body, \<open>None\<close> when
  \<open>JSON.parse\<close> throws.
\<close>

record cloudinary_body =
  body_success :: bool
  body_deleted :: nat

datatype fetch_response = FetchThrows | Response bool "cloudinary_body option"

record cloudinary_result =
  deleted_ok :: bool
  deletedCount :: nat

datatype remote_call =
    SelectImages "string list"
  | DeleteResources "string list"
  | RemoveCachedImage string
  | DeleteImages "string list"

definition publicIds_of :: "(string \<Rightarrow> string option) \<Rightarrow> string list \<Rightarrow> string list" where
  "publicIds_of publicId_of imageUrls =
     List.map_filter
       (\<lambda>u. case publicId_of u of
               None \<Rightarrow> None
             | Some publicId \<Rightarrow> if publicId = [] then None else Some publicId)
       imageUrls"

definition deleteMultipleFromCloudinary ::
  "(string \<Rightarrow> string option) \<Rightarrow> fetch_response \<Rightarrow> string list option
   \<Rightarrow> cloudinary_result \<times> remote_call list" where
  "deleteMultipleFromCloudinary publicId_of response imageUrls =
     (case imageUrls of
        None \<Rightarrow> (\<lparr>deleted_ok = True, deletedCount = 0\<rparr>, [])
      | Some urls \<Rightarrow>
          if length urls = 0 then (\<lparr>deleted_ok = True, deletedCount = 0\<rparr>, [])
          else let publicIds = publicIds_of publicId_of urls
               in if length publicIds = 0 then (\<lparr>deleted_ok = False, deletedCount = 0\<rparr>, [])
                  else (case response of
                          FetchThrows \<Rightarrow>
                            (\<lparr>deleted_ok = False, deletedCount = 0\<rparr>, [DeleteResources publicIds])
                        | Response ok parsed \<Rightarrow>
                            (case parsed of
                               None \<Rightarrow>
                                 (\<lparr>deleted_ok = False, deletedCount = 0\<rparr>,
                                  [DeleteResources publicIds])
                             | Some result \<Rightarrow>
                                 if ok \<and> body_success result
                                 then (\<lparr>deleted_ok = True, deletedCount = body_deleted result\<rparr>,
                                       [DeleteResources publicIds])
                                 else (\<lparr>deleted_ok = False, deletedCount = 0\<rparr>,
                                       [DeleteResources publicIds]))))"

text \<open>
  \<open>deleteMultipleRoomImages\<close>. A database request throws, answers with an error, or
  answers with data (the rows' \<open>image_url\<close> for the select, which may be \<open>null\<close>).
  \<open>removeCachedImage\<close> catches every exception and its result is not used, so it is
  a call in the log.
\<close>

datatype 'a db_response = DbThrows | DbError | DbData 'a

definition deleteMultipleRoomImages ::
  "(string \<Rightarrow> string option) \<Rightarrow> string list option db_response \<Rightarrow> fetch_response
   \<Rightarrow> unit db_response \<Rightarrow> string list \<Rightarrow> bool \<times> remote_call list" where
  "deleteMultipleRoomImages publicId_of selected response deleted imageIds =
     (if length imageIds = 0 then (True, [])
      else case selected of
             DbThrows \<Rightarrow> (False, [SelectImages imageIds])
           | _ \<Rightarrow>
               let cleanup =
                     (case selected of
                        DbData (Some imageData) \<Rightarrow>
                          let imageUrls = filter (\<lambda>u. u \<noteq> []) imageData
                          in if 0 < length imageData \<and> 0 < length imageUrls
                             then snd (deleteMultipleFromCloudinary publicId_of response
                                         (Some imageUrls))
                                  @ map RemoveCachedImage imageUrls
                             else []
                      | _ \<Rightarrow> [])
               in (case deleted of
                     DbThrows \<Rightarrow> (False, SelectImages imageIds # cleanup @ [DeleteImages imageIds])
                   | DbError \<Rightarrow> (False, SelectImages imageIds # cleanup @ [DeleteImages imageIds])
                   | DbData _ \<Rightarrow> (True, SelectImages imageIds # cleanup @ [DeleteImages imageIds])))"

section \<open>Batch upload (src/lib/supabase.ts, src/screens/ChatRoomScreen.tsx)\<close>

text \<open>
  \<open>uploadRoomImage\<close>: what can happen inside its \<open>try\<close> is that \<open>uploadToCloudinary\<close>
  throws, that the insert throws, that the insert answers with an error, with no row, or
  with the new row. The body has \<open>Inl\<close> for an exception; the function has the
  \<open>catch\<close>, which returns \<open>null\<close>. Its result type keeps \<open>Inl\<close> for a rejected
  promise, which is what the caller's \<open>catch\<close> would see.
\<close>

datatype upload_outcome =
  CloudinaryThrows | InsertThrows | InsertError | InsertNoRow | Inserted RoomImage

definition uploadRoomImage_body :: "upload_outcome \<Rightarrow> string + RoomImage option" where
  "uploadRoomImage_body outcome =
     (case outcome of
        CloudinaryThrows \<Rightarrow> Inl ''uploadToCloudinary''
      | InsertThrows \<Rightarrow> Inl ''insert''
      | InsertError \<Rightarrow> Inr None
      | InsertNoRow \<Rightarrow> Inr None
      | Inserted row \<Rightarrow> Inr (Some row))"

definition uploadRoomImage :: "upload_outcome \<Rightarrow> string + RoomImage option" where
  "uploadRoomImage outcome =
     (case uploadRoomImage_body outcome of
        Inl error \<Rightarrow> Inr None
      | Inr newImage \<Rightarrow> Inr newImage)"

text \<open>
  The state of one run of \<open>uploadMultipleImages\<close>: its local variables \<open>queue\<close>,
  \<open>retries\<close>, \<open>completedUploads\<close> and \<open>failedUploads\<close>, the React state
  \<open>uploadProgress\<close>, and two logs: every value given to \<open>uploadProgress\<close> with the
  code that wrote it, and the URIs handed to \<open>uploadRoomImage\<close>. \<open>settled\<close> counts
  the uploads that have settled; it indexes the environment. The progress is a
  JavaScript number; the model computes it with real numbers, that is, without the
  rounding of double precision.
\<close>

datatype progress_writer = Reset | Tick | Resolved | Snap

record upload_state =
  queue :: "string list"
  retries :: "string \<rightharpoonup> nat"
  completedUploads :: nat
  failedUploads :: nat
  uploadProgress :: real
  progress_log :: "(progress_writer \<times> real) list"
  attempts :: "string list"
  settled :: nat

text \<open>
  The environment of a run: how the \<open>k\<close>-th upload to settle ends, how many times the
  150 ms timer fires before it does (since the previous one settled), and, for the batch
  that starts when \<open>k\<close> uploads have settled, whether its second upload settles before
  its first.
\<close>

record upload_env =
  outcome_of :: "nat \<Rightarrow> upload_outcome"
  ticks_before :: "nat \<Rightarrow> nat"
  second_first :: "nat \<Rightarrow> bool"

definition setUploadProgress :: "progress_writer \<Rightarrow> real \<Rightarrow> upload_state \<Rightarrow> upload_state" where
  "setUploadProgress writer v st =
     st\<lparr>uploadProgress := v, progress_log := progress_log st @ [(writer, v)]\<rparr>"

text \<open>The updater of the timer, and the timer firing \<open>n\<close> times.\<close>

definition progress_tick :: "real \<Rightarrow> real" where
  "progress_tick prev = (if prev < 0.95 then prev + (0.95 - prev) * 0.15 else prev)"

fun run_timer :: "nat \<Rightarrow> upload_state \<Rightarrow> upload_state" where
  "run_timer 0 st = st"
| "run_timer (Suc n) st =
     run_timer n (setUploadProgress Tick (progress_tick (uploadProgress st)) st)"

definition batchSize :: nat where
  "batchSize = 2"

definition maxRetries :: nat where
  "maxRetries = 3"

text \<open>
  What the function mapped over the batch does once \<open>await uploadRoomImage(...)\<close> has
  settled with \<open>result\<close>: the rest of the \<open>try\<close> branch for a fulfilled promise
  (\<open>Inr\<close>), the \<open>catch\<close> branch with the retry logic for a rejected one (\<open>Inl\<close>).
  \<open>retries.get(uri) || 0\<close> is 0 for a URI that has no entry.
\<close>

definition handle_settled ::
  "nat \<Rightarrow> string \<Rightarrow> string + RoomImage option \<Rightarrow> upload_state \<Rightarrow> upload_state" where
  "handle_settled totalUploads uri result st =
     (case result of
        Inr newImage \<Rightarrow>
          (let st1 = st\<lparr>completedUploads := completedUploads st + 1\<rparr>
           in setUploadProgress Resolved
                (real (completedUploads st1 + failedUploads st1) / real totalUploads) st1)
      | Inl error \<Rightarrow>
          (let currentRetries = (case retries st uri of None \<Rightarrow> 0 | Some n \<Rightarrow> n)
           in if currentRetries < maxRetries
              then st\<lparr>retries := (retries st)(uri \<mapsto> currentRetries + 1),
                      queue := queue st @ [uri]\<rparr>
              else (let st1 = st\<lparr>failedUploads := failedUploads st + 1\<rparr>
                    in setUploadProgress Resolved
                         (real (completedUploads st1 + failedUploads st1) / real totalUploads)
                         st1)))"

text \<open>
  One upload of a batch settling: the timer has fired in the meantime, the environment
  says how the upload ended, and the handler runs on what \<open>uploadRoomImage\<close> returns.
\<close>

definition settle_upload :: "upload_env \<Rightarrow> nat \<Rightarrow> string \<Rightarrow> upload_state \<Rightarrow> upload_state" where
  "settle_upload env totalUploads uri st0 =
     (let st = (run_timer (ticks_before env (settled st0)) st0)\<lparr>settled := settled st0 + 1\<rparr>
      in handle_settled totalUploads uri (uploadRoomImage (outcome_of env (settled st0))) st)"

text \<open>
  One turn of the \<open>while\<close> loop: \<open>queue.splice(0, batchSize)\<close>, the uploads started in
  the order of the batch, and their handlers run in the order in which they settle.
\<close>

definition process_batch :: "upload_env \<Rightarrow> nat \<Rightarrow> upload_state \<Rightarrow> upload_state" where
  "process_batch env totalUploads st =
     (let batch = take batchSize (queue st);
          st1 = st\<lparr>queue := drop batchSize (queue st), attempts := attempts st @ batch\<rparr>;
          order = (if second_first env (settled st) then rev batch else batch)
      in fold (settle_upload env totalUploads) order st1)"

text \<open>
  The \<open>while (queue.length > 0)\<close> loop. The pause of 500 ms between two batches only
  lets the timer fire, which \<open>ticks_before\<close> accounts for.
\<close>

function upload_loop :: "upload_env \<Rightarrow> nat \<Rightarrow> upload_state \<Rightarrow> upload_state" where
  "upload_loop env totalUploads st =
     (if 0 < length (queue st)
      then upload_loop env totalUploads (process_batch env totalUploads st)
      else st)"
  by pat_completeness auto
termination
proof (relation "measure (\<lambda>(env, totalUploads, st). length (queue st))")
  show "wf (measure (\<lambda>(env, totalUploads, st). length (queue st)))"
    by simp
next
  fix env :: upload_env and totalUploads :: nat and st :: upload_state
  assume nonempty: "0 < length (queue st)"
  have timer: "queue (run_timer n s) = queue s" for n s
    by (induction n arbitrary: s) (simp_all add: setUploadProgress_def)
  have settle: "queue (settle_upload env totalUploads uri s) = queue s" for uri s
    by (simp add: settle_upload_def handle_settled_def uploadRoomImage_def
          uploadRoomImage_body_def setUploadProgress_def Let_def timer
          split: upload_outcome.splits)
  have handlers: "queue (fold (settle_upload env totalUploads) order s) = queue s" for order s
    by (induction order arbitrary: s) (simp_all add: settle)
  have "queue (process_batch env totalUploads st) = drop batchSize (queue st)"
    by (simp add: process_batch_def Let_def handlers)
  with nonempty
  show "((env, totalUploads, process_batch env totalUploads st), env, totalUploads, st)
      \<in> measure (\<lambda>(env, totalUploads, st). length (queue st))"
    by (simp add: batchSize_def)
qed

text \<open>
  \<open>uploadMultipleImages\<close>: nothing happens for an empty list (\<open>None\<close>); otherwise
  the progress is reset, the loop runs, the timer is cleared, the progress is set to 1
  and one of three toasts is shown. The reset of the progress to 0 that the \<open>finally\<close>
  block schedules 500 ms later is \<open>retire_batch\<close>.
\<close>

datatype batch_report = AllUploaded | SomeUploaded | NoneUploaded

definition batch_report_of :: "nat \<Rightarrow> nat \<Rightarrow> batch_report" where
  "batch_report_of successfulUploads totalUploads =
     (if successfulUploads = totalUploads then AllUploaded
      else if 0 < successfulUploads then SomeUploaded
      else NoneUploaded)"

definition initial_upload_state :: "string list \<Rightarrow> upload_state" where
  "initial_upload_state uris =
     \<lparr>queue = uris, retries = Map.empty, completedUploads = 0, failedUploads = 0,
      uploadProgress = 0, progress_log = [(Reset, 0)], attempts = [], settled = 0\<rparr>"

definition uploadMultipleImages ::
  "upload_env \<Rightarrow> string list \<Rightarrow> (upload_state \<times> batch_report) option" where
  "uploadMultipleImages env uris =
     (if length uris = 0 then None
      else let totalUploads = length uris;
               st = upload_loop env totalUploads (initial_upload_state uris);
               st' = setUploadProgress Snap 1 st
           in Some (st', batch_report_of (completedUploads st') totalUploads))"

definition retire_batch :: "upload_state \<Rightarrow> upload_state" where
  "retire_batch st = setUploadProgress Reset 0 st"

section \<open>Notions used to state the properties\<close>

text \<open>
  An image counts as saved when a local file was found for it (a valid cache entry whose
  file exists, or a download answered with status 200), the file was added to the media
  library and, on Android, put into the album.
\<close>

definition item_saved :: "bool \<Rightarrow> item_env \<Rightarrow> RoomImage \<Rightarrow> bool" where
  "item_saved android env img =
     ((getCachedImageUri (clock env) (image_cache env) (file_exists env) (image_url img)
         \<noteq> image_url img
       \<or> download_status env = Some 200)
      \<and> createAsset_ok env
      \<and> (if android
         then (case getAlbum env of
                 GetAlbumThrows \<Rightarrow> False
               | NoAlbum \<Rightarrow> createAlbum_ok env
               | Album \<Rightarrow> addAssets_ok env)
         else True))"

text \<open>The URLs for which a pass of the download loop was started, in order.\<close>

fun lookups :: "platform_call list \<Rightarrow> string list" where
  "lookups [] = []"
| "lookups (CacheLookup u # calls) = u # lookups calls"
| "lookups (c # calls) = lookups calls"

text \<open>
  The platform calls one pass of the download loop is to make, by the steps of the bulk
  download: look the URL up in the cache; without a cached file that exists, download
  the URL to a temporary path (its last segment under the cache directory, or a name
  made of the time and the count so far); with a local file (the cached one, or the
  downloaded one when the status is 200), add it to the media library; on Android, once
  the asset is there, look the album up and create it or add the asset to it.
\<close>

definition download_target :: "string \<Rightarrow> item_env \<Rightarrow> nat \<Rightarrow> RoomImage \<Rightarrow> string" where
  "download_target cacheDirectory env savedSoFar img =
     cacheDirectory
     @ (if last_segment (image_url img) = []
        then ''download-'' @ decimal (nat (clock env)) @ ''-'' @ decimal savedSoFar @ ''.jpg''
        else last_segment (image_url img))"

definition local_source :: "string \<Rightarrow> item_env \<Rightarrow> nat \<Rightarrow> RoomImage \<Rightarrow> string option" where
  "local_source cacheDirectory env savedSoFar img =
     (if getCachedImageUri (clock env) (image_cache env) (file_exists env) (image_url img)
           \<noteq> image_url img
      then Some (getCachedImageUri (clock env) (image_cache env) (file_exists env)
                   (image_url img))
      else if download_status env = Some 200
      then Some (download_target cacheDirectory env savedSoFar img)
      else None)"

definition expected_calls ::
  "bool \<Rightarrow> string \<Rightarrow> item_env \<Rightarrow> nat \<Rightarrow> RoomImage \<Rightarrow> platform_call list" where
  "expected_calls android cacheDirectory env savedSoFar img =
     [CacheLookup (image_url img)]
     @ (if getCachedImageUri (clock env) (image_cache env) (file_exists env) (image_url img)
             = image_url img
        then [DownloadAsync (image_url img) (download_target cacheDirectory env savedSoFar img)]
        else [])
     @ (case local_source cacheDirectory env savedSoFar img of
          None \<Rightarrow> []
        | Some file \<Rightarrow>
            CreateAsset file
            # (if android \<and> createAsset_ok env
               then GetAlbum
                    # (case getAlbum env of
                         GetAlbumThrows \<Rightarrow> []
                       | NoAlbum \<Rightarrow> [CreateAlbum]
                       | Album \<Rightarrow> [AddAssetsToAlbum])
               else []))"

text \<open>
  The number of images saved among the first \<open>i\<close> of the list, and the number of
  calls of \<open>createAssetAsync\<close> in a log.
\<close>

definition saved_before ::
  "bool \<Rightarrow> (nat \<Rightarrow> item_env) \<Rightarrow> RoomImage list \<Rightarrow> nat \<Rightarrow> nat" where
  "saved_before android envs imgs i =
     length (filter (\<lambda>j. item_saved android (envs j) (imgs ! j)) [0..<i])"

fun asset_calls :: "platform_call list \<Rightarrow> nat" where
  "asset_calls [] = 0"
| "asset_calls (CreateAsset file # calls) = Suc (asset_calls calls)"
| "asset_calls (c # calls) = asset_calls calls"

text \<open>The ids shown in the feed.\<close>

definition feed_ids :: "screen_state \<Rightarrow> string option list" where
  "feed_ids st = map image_id (images st)"






section \<open>Concrete inputs\<close>

text \<open>
  A feed holding one image with id \<open>X\<close>, uploaded by the local user \<open>bob\<close> in a room
  created by \<open>alice\<close>, nothing selected; and a cache entry written at time 0.
\<close>

definition sample_image :: RoomImage where
  "sample_image =
     \<lparr>image_id = Some ''X'', room_id = ''room'', image_url = ''https://example.org/x.jpg'',
      uploaded_by = ''bob'', uploaded_at = None\<rparr>"

definition sample_feed :: screen_state where
  "sample_feed = \<lparr>images = [sample_image], selectedImages = {}, toasts = []\<rparr>"

definition sample_closure :: subscription_closure where
  "sample_closure = setupRealtimeSubscription ''bob'' ''alice'' sample_feed"

definition sample_entry :: CachedImage where
  "sample_entry =
     \<lparr>url = ''https://example.org/x.jpg'', cachedPath = Some ''/cache/images/x.jpg'',
      timestamp = 0, width = None, height = None, hash = None\<rparr>"

definition sample_cache :: stored_cache where
  "sample_cache = Item [''https://example.org/x.jpg'' \<mapsto> sample_entry]"

text \<open>
  A platform on which nothing is cached, every download is answered with status 200 and
  every call of the media library succeeds; and one on which the download is answered
  with status 404.
\<close>

definition sample_item_env :: item_env where
  "sample_item_env =
     \<lparr>clock = 0, image_cache = NoItem, file_exists = (\<lambda>path. Some False),
      download_status = Some 200, createAsset_ok = True, getAlbum = NoAlbum,
      createAlbum_ok = True, addAssets_ok = True\<rparr>"

definition failing_item_env :: item_env where
  "failing_item_env = sample_item_env\<lparr>download_status := Some 404\<rparr>"

text \<open>
  Three images to download, where the download of the second is answered with status
  404.
\<close>

definition sample_batch :: "RoomImage list" where
  "sample_batch =
     [sample_image, sample_image\<lparr>image_id := Some ''Y''\<rparr>, sample_image\<lparr>image_id := Some ''Z''\<rparr>]"

definition sample_envs :: "nat \<Rightarrow> item_env" where
  "sample_envs i = (if i = 1 then failing_item_env else sample_item_env)"


definition failing_upload_env :: upload_env where
  "failing_upload_env =
     \<lparr>outcome_of = (\<lambda>k. if k = 0 then CloudinaryThrows else Inserted sample_image),
      ticks_before = (\<lambda>k. 0),
      second_first = (\<lambda>k. False)\<rparr>"



section \<open>The room media feed and remote events\<close>

lemma on_insert_present:
  "list_ex (\<lambda>img. image_id img = image_id newImage) (images st) \<Longrightarrow> on_insert cl newImage st = st"
  by (simp add: on_insert_def)

lemma on_insert_absent:
  "\<not> list_ex (\<lambda>img. image_id img = image_id newImage) (images st) \<Longrightarrow>
   images (on_insert cl newImage st) = newImage # images st"
  by (simp add: on_insert_def showToast_def)

lemma on_insert_then_present:
  "list_ex (\<lambda>img. image_id img = image_id newImage) (images (on_insert cl newImage st))"
  by (simp add: on_insert_def Let_def)

lemma on_insert_distinct:
  "distinct (feed_ids st) \<Longrightarrow> distinct (feed_ids (on_insert cl newImage st))"
  by (auto simp add: feed_ids_def on_insert_def Let_def showToast_def list_ex_iff)

lemma on_delete_images:
  "images (on_delete cl X st) = filter (\<lambda>img. image_id img \<noteq> Some X) (images st)"
  by (simp add: on_delete_def Let_def)

text \<open>
  C1, as stated, at a concrete input: the local user deletes the image with id \<open>X\<close>,
  which leaves the feed at once, and then an insert event for \<open>X\<close> arrives. The claim
  says \<open>X\<close> stays absent; in the code it is in the feed again.
\<close>

theorem stale_insert_reintroduces_counterexample:
  "Some ''X'' \<notin> set (feed_ids (handleDeleteImage ''bob'' False sample_image True sample_feed))
   \<and> Some ''X'' \<in> set (feed_ids
        (realtime_event sample_closure (INSERT sample_image)
           (handleDeleteImage ''bob'' False sample_image True sample_feed)))"
  by (simp add: feed_ids_def handleDeleteImage_def on_insert_def sample_image_def sample_feed_def)

text \<open>
  C1, amended: when a user allowed to delete the image with id \<open>X\<close> confirms the
  deletion, \<open>X\<close> is absent from the feed at once. The code keeps no marker of the
  removal, so an insert event carrying id \<open>X\<close> that arrives afterwards puts its image at
  the head of the feed. After a delete event for \<open>X\<close>, applied to any feed, \<open>X\<close> is
  absent.
\<close>

theorem local_delete_then_remote_events:
  assumes "image_id picked = Some X" and "X \<noteq> []"
    and "uploaded_by picked = user \<or> isRoomCreator"
    and "image_id newImage = Some X"
  shows "Some X \<notin> set (feed_ids (handleDeleteImage user isRoomCreator picked True st))
    \<and> images (realtime_event cl (INSERT newImage)
               (handleDeleteImage user isRoomCreator picked True st))
        = newImage # images (handleDeleteImage user isRoomCreator picked True st)
    \<and> Some X \<notin> set (feed_ids (realtime_event cl (DELETE (Some X)) st'))"
proof -
  have deleted: "images (handleDeleteImage user isRoomCreator picked True st)
      = filter (\<lambda>img. image_id img \<noteq> Some X) (images st)"
    using assms by (auto simp add: handleDeleteImage_def)
  then have absent: "Some X \<notin> set (feed_ids (handleDeleteImage user isRoomCreator picked True st))"
    by (auto simp add: feed_ids_def)
  then have "\<not> list_ex (\<lambda>img. image_id img = image_id newImage)
                 (images (handleDeleteImage user isRoomCreator picked True st))"
    using assms(4) by (force simp add: feed_ids_def list_ex_iff)
  then have reinserted: "images (realtime_event cl (INSERT newImage)
               (handleDeleteImage user isRoomCreator picked True st))
        = newImage # images (handleDeleteImage user isRoomCreator picked True st)"
    by (simp add: on_insert_absent)
  have "Some X \<notin> set (feed_ids (realtime_event cl (DELETE (Some X)) st'))"
    using assms(2) by (auto simp add: feed_ids_def on_delete_images)
  with absent reinserted show ?thesis by blast
qed

theorem local_delete_then_remote_events_witness:
  "image_id sample_image = Some ''X'' \<and> ''X'' \<noteq> [] \<and> uploaded_by sample_image = ''bob''
   \<and> Some ''X'' \<notin> set (feed_ids (handleDeleteImage ''bob'' False sample_image True sample_feed))
   \<and> images (realtime_event sample_closure (INSERT sample_image)
              (handleDeleteImage ''bob'' False sample_image True sample_feed))
       = sample_image # images (handleDeleteImage ''bob'' False sample_image True sample_feed)
   \<and> Some ''X'' \<notin> set (feed_ids (realtime_event sample_closure (DELETE (Some ''X'')) sample_feed))"
  using local_delete_then_remote_events [of sample_image "''X''" "''bob''" False sample_image
      sample_feed sample_closure sample_feed]
  by (simp add: sample_image_def)

text \<open>
  C7: when the feed holds an image whose id is the id of the inserted row, the insert
  event changes nothing (neither the list nor the toasts). For every feed, applying the
  same insert event a second time changes nothing, and an insert event keeps the ids of
  the feed free of duplicates.
\<close>

theorem remote_insert_idempotent:
  assumes "image_id newImage \<in> set (feed_ids st)"
  shows "realtime_event cl (INSERT newImage) st = st
    \<and> realtime_event cl (INSERT newImage) (realtime_event cl (INSERT newImage) st0)
        = realtime_event cl (INSERT newImage) st0
    \<and> (distinct (feed_ids st0) \<longrightarrow>
         distinct (feed_ids (realtime_event cl (INSERT newImage) st0)))"
proof -
  from assms have "list_ex (\<lambda>img. image_id img = image_id newImage) (images st)"
    by (auto simp add: feed_ids_def list_ex_iff)
  then show ?thesis
    by (simp add: on_insert_present on_insert_then_present on_insert_distinct)
qed

theorem remote_insert_idempotent_witness:
  "image_id sample_image \<in> set (feed_ids sample_feed)
   \<and> distinct (feed_ids sample_feed)
   \<and> realtime_event sample_closure (INSERT sample_image) sample_feed = sample_feed
   \<and> distinct (feed_ids (realtime_event sample_closure (INSERT sample_image) sample_feed))"
  using remote_insert_idempotent [of sample_image sample_feed sample_closure sample_feed]
  by (simp add: sample_feed_def feed_ids_def)

text \<open>
  C9 at a concrete input: the subscription is set up while nothing is selected, the user
  then selects the image with id \<open>X\<close>, and a delete event for \<open>X\<close> arrives. The
  handler tests the selection it captured, which is empty, so \<open>X\<close> leaves the feed and
  stays in the current selection.
\<close>

theorem remote_delete_keeps_stale_selection:
  "''X'' \<in> selectedImages
      (realtime_event sample_closure (DELETE (Some ''X'')) (toggleImageSelection ''X'' sample_feed))
   \<and> Some ''X'' \<notin> set (feed_ids
      (realtime_event sample_closure (DELETE (Some ''X'')) (toggleImageSelection ''X'' sample_feed)))"
  by (simp add: feed_ids_def on_delete_def sample_closure_def setupRealtimeSubscription_def
        toggleImageSelection_def sample_feed_def sample_image_def)

text \<open>
  The removal from the selection does happen for an id that was selected when the
  subscription was set up.
\<close>

lemma remote_delete_unselects_captured:
  "X \<noteq> [] \<Longrightarrow> X \<in> captured_selectedImages cl \<Longrightarrow>
   X \<notin> selectedImages (realtime_event cl (DELETE (Some X)) st)"
  by (simp add: on_delete_def Let_def showToast_def split: option.splits)

section \<open>The change-feed subscription\<close>

text \<open>
  C3 at a concrete input: the channel reports \<open>CHANNEL_ERROR\<close> four times in a row.
  \<open>retryCount\<close> starts at 0 in every call of the callback, so each of the four errors
  starts a reconnect timer, each with a delay of 2000 ms.
\<close>

theorem reconnect_after_every_error:
  "reconnect_attempts [CHANNEL_ERROR, CHANNEL_ERROR, CHANNEL_ERROR, CHANNEL_ERROR]
     = [2000, 2000, 2000, 2000]"
  by (simp add: subscribe_callback_def)

lemma reconnect_attempts_unbounded:
  "reconnect_attempts (replicate n CHANNEL_ERROR) = replicate n 2000"
  by (induction n) (simp_all add: subscribe_callback_def)

section \<open>The cache store\<close>

text \<open>
  C8: an entry stored for a URL whose age \<open>now - timestamp\<close> is at least
  \<open>CACHE_EXPIRATION\<close> (7 days) is a miss: \<open>getCachedImage\<close> returns \<open>null\<close>, and
  \<open>getCachedImageUri\<close> returns the URL itself whatever the file system says about the
  entry's file.
\<close>

theorem expired_entry_is_miss:
  "getCachedImages stored u = Some entry \<Longrightarrow> CACHE_EXPIRATION \<le> now - timestamp entry \<Longrightarrow>
   getCachedImage now stored u = None \<and> getCachedImageUri now stored exists u = u"
  by (simp add: getCachedImage_def getCachedImageUri_def)

theorem expired_entry_is_miss_witness:
  "getCachedImages sample_cache ''https://example.org/x.jpg'' = Some sample_entry
   \<and> CACHE_EXPIRATION \<le> 604800000 - timestamp sample_entry
   \<and> getCachedImage 604800000 sample_cache ''https://example.org/x.jpg'' = None
   \<and> getCachedImageUri 604800000 sample_cache (\<lambda>path. Some True) ''https://example.org/x.jpg''
       = ''https://example.org/x.jpg''"
  using expired_entry_is_miss [of sample_cache "''https://example.org/x.jpg''" sample_entry
      604800000 "\<lambda>path. Some True"]
  by (simp add: getCachedImages_def sample_cache_def sample_entry_def CACHE_EXPIRATION_def)

text \<open>The 7 days in milliseconds, and an entry one millisecond younger, which is a hit.\<close>

lemma CACHE_EXPIRATION_value: "CACHE_EXPIRATION = 604800000"
  by (simp add: CACHE_EXPIRATION_def)

lemma younger_entry_is_hit:
  "getCachedImage 604799999 sample_cache ''https://example.org/x.jpg'' = Some sample_entry"
  by (simp add: getCachedImage_def getCachedImages_def sample_cache_def sample_entry_def
        CACHE_EXPIRATION_def)

section \<open>Bulk download\<close>

text \<open>
  C5: when the answer to the permission request is anything but \<open>granted\<close>, the result
  is \<open>{success: false, count: 0, permissionDenied: true}\<close> and the permission request
  is the only platform call made: no cache lookup, no download, no save.
\<close>

theorem download_permission_denied:
  "status \<noteq> ''granted'' \<Longrightarrow>
   downloadMultipleImages android cacheDirectory (PermissionStatus status) envs imgs
     = (\<lparr>success = False, count = 0, permissionDenied = Some True\<rparr>, [RequestPermissions])"
  by (simp add: downloadMultipleImages_def downloadMultipleImages_body_def)

theorem download_permission_denied_witness:
  "''denied'' \<noteq> ''granted''
   \<and> downloadMultipleImages True ''/cache/'' (PermissionStatus ''denied'')
         (\<lambda>i. sample_item_env) [sample_image]
       = (\<lparr>success = False, count = 0, permissionDenied = Some True\<rparr>, [RequestPermissions])"
  using download_permission_denied [of "''denied''" True "''/cache/''" "\<lambda>i. sample_item_env"
      "[sample_image]"]
  by simp

lemma lookups_append: "lookups (xs @ ys) = lookups xs @ lookups ys"
  by (induction xs rule: lookups.induct) simp_all

lemma save_to_library_lookups: "lookups (snd (save_to_library android env fileUri)) = []"
  by (simp add: save_to_library_def split: album_lookup.splits)

lemma save_to_library_counted:
  "(fst (save_to_library android env fileUri) = Inr True) =
   (createAsset_ok env \<and>
    (if android
     then (case getAlbum env of GetAlbumThrows \<Rightarrow> False | NoAlbum \<Rightarrow> createAlbum_ok env
           | Album \<Rightarrow> addAssets_ok env)
     else True))"
  by (simp add: save_to_library_def split: album_lookup.splits)

lemma process_image_lookups:
  "lookups (snd (process_image android cacheDirectory env n img)) = [image_url img]"
  by (simp add: process_image_def Let_def case_prod_beta save_to_library_lookups
        split: option.splits)

lemma process_image_counted:
  "(fst (process_image android cacheDirectory env n img) = Inr True) = item_saved android env img"
  by (simp add: process_image_def item_saved_def Let_def case_prod_beta save_to_library_counted
        split: option.splits)

lemma counted_cases:
  "(case r of Inl error \<Rightarrow> n | Inr counted \<Rightarrow> if counted then n + 1 else n)
     = (if r = Inr True then n + 1 else (n::nat))"
  by (cases r) auto

lemma download_loop_lookups:
  "lookups (snd (download_loop android cacheDirectory envs i imgs n)) = map image_url imgs"
  by (induction imgs arbitrary: i n)
     (simp_all add: case_prod_beta Let_def lookups_append process_image_lookups)

lemma upt_shift: "[0..<Suc k] = 0 # map Suc [0..<k]"
  by (simp add: upt_conv_Cons map_Suc_upt del: upt_Suc)

lemma download_loop_count:
  "fst (download_loop android cacheDirectory envs i imgs n)
     = n + length (filter (\<lambda>j. item_saved android (envs (i + j)) (imgs ! j)) [0..<length imgs])"
proof (induction imgs arbitrary: i n)
  case Nil
  then show ?case by simp
next
  case (Cons img rest)
  let ?n' = "if item_saved android (envs i) img then n + 1 else n"
  have step: "fst (download_loop android cacheDirectory envs i (img # rest) n)
      = fst (download_loop android cacheDirectory envs (i + 1) rest ?n')"
    by (simp add: case_prod_beta Let_def counted_cases process_image_counted)
  have shift: "filter (\<lambda>j. item_saved android (envs (i + j)) ((img # rest) ! j))
                 (map Suc [0..<length rest])
      = map Suc (filter (\<lambda>j. item_saved android (envs (i + 1 + j)) (rest ! j)) [0..<length rest])"
    by (simp add: filter_map comp_def)
  show ?case
    unfolding step Cons.IH
    by (simp add: upt_shift shift del: upt_Suc)
qed

lemma save_to_library_calls:
  "snd (save_to_library android env file)
     = CreateAsset file
       # (if android \<and> createAsset_ok env
          then GetAlbum
               # (case getAlbum env of
                    GetAlbumThrows \<Rightarrow> []
                  | NoAlbum \<Rightarrow> [CreateAlbum]
                  | Album \<Rightarrow> [AddAssetsToAlbum])
          else [])"
  by (simp add: save_to_library_def split: album_lookup.splits)

text \<open>One pass of the loop makes the calls the steps of the bulk download ask for.\<close>

lemma process_image_calls:
  "snd (process_image android cacheDirectory env n img)
     = expected_calls android cacheDirectory env n img"
proof (cases "getCachedImageUri (clock env) (image_cache env) (file_exists env) (image_url img)
                = image_url img")
  case True
  show ?thesis
  proof (cases "download_status env")
    case None
    with True show ?thesis
      by (simp add: process_image_def expected_calls_def local_source_def download_target_def
            Let_def)
  next
    case (Some status)
    with True show ?thesis
      by (simp add: process_image_def expected_calls_def local_source_def download_target_def
            Let_def case_prod_beta save_to_library_calls)
  qed
next
  case False
  then show ?thesis
    by (simp add: process_image_def expected_calls_def local_source_def Let_def case_prod_beta
          save_to_library_calls)
qed

lemma asset_calls_append: "asset_calls (xs @ ys) = asset_calls xs + asset_calls ys"
  by (induction xs rule: asset_calls.induct) simp_all

lemma saved_makes_asset_call:
  "fst (process_image android cacheDirectory env n img) = Inr True \<Longrightarrow>
   asset_calls (snd (process_image android cacheDirectory env n img)) = 1"
  by (simp add: process_image_calls process_image_counted expected_calls_def local_source_def
        item_saved_def asset_calls_append split: album_lookup.splits if_splits)

lemma download_loop_assets:
  "fst (download_loop android cacheDirectory envs i imgs n)
     \<le> n + asset_calls (snd (download_loop android cacheDirectory envs i imgs n))"
proof (induction imgs arbitrary: i n)
  case Nil
  then show ?case by simp
next
  case (Cons img rest)
  let ?r = "fst (process_image android cacheDirectory (envs i) n img)"
  let ?calls = "snd (process_image android cacheDirectory (envs i) n img)"
  let ?n' = "if ?r = Inr True then n + 1 else n"
  have "?n' \<le> n + asset_calls ?calls"
    using saved_makes_asset_call [of android cacheDirectory "envs i" n img] by simp
  moreover have "fst (download_loop android cacheDirectory envs (i + 1) rest ?n')
      \<le> ?n' + asset_calls (snd (download_loop android cacheDirectory envs (i + 1) rest ?n'))"
    by (rule Cons.IH)
  ultimately show ?case
    by (simp add: case_prod_beta Let_def counted_cases asset_calls_append)
qed

lemma download_loop_calls:
  "snd (download_loop android cacheDirectory envs i imgs n)
     = concat (map (\<lambda>j. expected_calls android cacheDirectory (envs (i + j))
                           (n + length (filter (\<lambda>k. item_saved android (envs (i + k)) (imgs ! k))
                                          [0..<j]))
                           (imgs ! j))
                 [0..<length imgs])"
proof (induction imgs arbitrary: i n)
  case Nil
  then show ?case by simp
next
  case (Cons img rest)
  let ?n' = "if item_saved android (envs i) img then n + 1 else n"
  let ?f = "\<lambda>j. expected_calls android cacheDirectory (envs (i + j))
                  (n + length (filter (\<lambda>k. item_saved android (envs (i + k)) ((img # rest) ! k))
                                 [0..<j]))
                  ((img # rest) ! j)"
  let ?g = "\<lambda>j. expected_calls android cacheDirectory (envs (i + 1 + j))
                  (?n' + length (filter (\<lambda>k. item_saved android (envs (i + 1 + k)) (rest ! k))
                                  [0..<j]))
                  (rest ! j)"
  have step: "snd (download_loop android cacheDirectory envs i (img # rest) n)
      = expected_calls android cacheDirectory (envs i) n img
        @ snd (download_loop android cacheDirectory envs (i + 1) rest ?n')"
    by (simp add: case_prod_beta Let_def counted_cases process_image_counted process_image_calls)
  have count: "n + length (filter (\<lambda>k. item_saved android (envs (i + k)) ((img # rest) ! k))
                             [0..<Suc j])
      = ?n' + length (filter (\<lambda>k. item_saved android (envs (i + 1 + k)) (rest ! k)) [0..<j])" for j
    by (simp add: upt_shift filter_map comp_def del: upt_Suc)
  have first: "?f 0 = expected_calls android cacheDirectory (envs i) n img"
    by simp
  have later: "?f (Suc j) = ?g j" for j
    using count [of j] by simp
  have "map ?f [0..<length (img # rest)] = ?f 0 # map ?g [0..<length rest]"
    using later by (simp add: upt_shift [of "length rest"] comp_def del: upt_Suc)
  then have "concat (map ?f [0..<length (img # rest)])
      = expected_calls android cacheDirectory (envs i) n img @ concat (map ?g [0..<length rest])"
    using first by simp
  with step Cons.IH [of "i + 1" ?n'] show ?case
    by simp
qed

text \<open>
  C6: with the permission granted, a pass of the loop is made for every image of the
  list, in order, whatever happened to the images before it: the platform calls of the
  run are the permission request followed, image by image, by the calls of one pass
  (cache lookup, download when nothing is cached, save to the media library when there
  is a local file, album step on Android). No exception leaves the function; \<open>count\<close>
  is the number of images saved, each of which has its call of \<open>createAssetAsync\<close> in
  the log, and \<open>success\<close> is \<open>count > 0\<close>. When the permission request itself
  throws, the result is \<open>{success: false, count: 0}\<close>.
\<close>

theorem download_continues_after_failures:
  "(case downloadMultipleImages android cacheDirectory (PermissionStatus ''granted'') envs imgs of
      (result, calls) \<Rightarrow>
        count result
          = length (filter (\<lambda>i. item_saved android (envs i) (imgs ! i)) [0..<length imgs])
        \<and> success result = (0 < count result)
        \<and> lookups calls = map image_url imgs
        \<and> calls = RequestPermissions
                   # concat (map (\<lambda>i. expected_calls android cacheDirectory (envs i)
                                         (saved_before android envs imgs i) (imgs ! i))
                               [0..<length imgs])
        \<and> count result \<le> asset_calls calls)
   \<and> (\<exists>result calls.
         downloadMultipleImages_body android cacheDirectory (PermissionStatus ''granted'') envs imgs
           = (Inr result, calls))
   \<and> fst (downloadMultipleImages android cacheDirectory PermissionThrows envs imgs)
       = \<lparr>success = False, count = 0, permissionDenied = None\<rparr>"
  using download_loop_count [of android cacheDirectory envs 0 imgs 0]
    download_loop_lookups [of android cacheDirectory envs 0 imgs 0]
    download_loop_calls [of android cacheDirectory envs 0 imgs 0]
    download_loop_assets [of android cacheDirectory envs 0 imgs 0]
  by (simp add: downloadMultipleImages_def downloadMultipleImages_body_def case_prod_beta
        saved_before_def)

text \<open>
  Three images on Android, the download of the second answered with 404: the first and
  the third are downloaded, saved and put into the album, the second is downloaded and
  left, and the count is 2.
\<close>

lemma sample_batch_run:
  "downloadMultipleImages True ''/cache/'' (PermissionStatus ''granted'') sample_envs sample_batch
     = (\<lparr>success = True, count = 2, permissionDenied = None\<rparr>,
        [RequestPermissions,
         CacheLookup ''https://example.org/x.jpg'',
         DownloadAsync ''https://example.org/x.jpg'' ''/cache/x.jpg'',
         CreateAsset ''/cache/x.jpg'', GetAlbum, CreateAlbum,
         CacheLookup ''https://example.org/x.jpg'',
         DownloadAsync ''https://example.org/x.jpg'' ''/cache/x.jpg'',
         CacheLookup ''https://example.org/x.jpg'',
         DownloadAsync ''https://example.org/x.jpg'' ''/cache/x.jpg'',
         CreateAsset ''/cache/x.jpg'', GetAlbum, CreateAlbum])"
  by (simp add: downloadMultipleImages_def downloadMultipleImages_body_def sample_envs_def
        sample_batch_def process_image_def save_to_library_def sample_item_env_def
        failing_item_env_def sample_image_def getCachedImageUri_def getCachedImage_def
        getCachedImages_def last_segment_def Let_def)

lemma sample_batch_saved:
  "filter (\<lambda>i. item_saved True (sample_envs i) (sample_batch ! i)) [0..<length sample_batch]
     = [0, 2]"
  by (simp add: sample_batch_def sample_envs_def item_saved_def sample_item_env_def
        failing_item_env_def getCachedImageUri_def getCachedImage_def getCachedImages_def
        upt_rec [of 0] upt_rec [of 1] upt_rec [of 2])

theorem download_continues_after_failures_witness:
  "count (fst (downloadMultipleImages True ''/cache/'' (PermissionStatus ''granted'')
                 sample_envs sample_batch)) = 2
   \<and> success (fst (downloadMultipleImages True ''/cache/'' (PermissionStatus ''granted'')
                    sample_envs sample_batch))
   \<and> lookups (snd (downloadMultipleImages True ''/cache/'' (PermissionStatus ''granted'')
                    sample_envs sample_batch))
       = map image_url sample_batch
   \<and> concat (map (\<lambda>i. expected_calls True ''/cache/'' (sample_envs i)
                         (saved_before True sample_envs sample_batch i) (sample_batch ! i))
               [0..<length sample_batch])
       = [CacheLookup ''https://example.org/x.jpg'',
          DownloadAsync ''https://example.org/x.jpg'' ''/cache/x.jpg'',
          CreateAsset ''/cache/x.jpg'', GetAlbum, CreateAlbum,
          CacheLookup ''https://example.org/x.jpg'',
          DownloadAsync ''https://example.org/x.jpg'' ''/cache/x.jpg'',
          CacheLookup ''https://example.org/x.jpg'',
          DownloadAsync ''https://example.org/x.jpg'' ''/cache/x.jpg'',
          CreateAsset ''/cache/x.jpg'', GetAlbum, CreateAlbum]
   \<and> asset_calls (snd (downloadMultipleImages True ''/cache/'' (PermissionStatus ''granted'')
                        sample_envs sample_batch)) = 2"
proof -
  let ?run = "downloadMultipleImages True ''/cache/'' (PermissionStatus ''granted'')
                sample_envs sample_batch"
  let ?expected = "concat (map (\<lambda>i. expected_calls True ''/cache/'' (sample_envs i)
                                  (saved_before True sample_envs sample_batch i)
                                  (sample_batch ! i))
                        [0..<length sample_batch])"
  have general:
    "count (fst ?run)
       = length (filter (\<lambda>i. item_saved True (sample_envs i) (sample_batch ! i))
                   [0..<length sample_batch])
     \<and> success (fst ?run) = (0 < count (fst ?run))
     \<and> lookups (snd ?run) = map image_url sample_batch
     \<and> snd ?run = RequestPermissions # ?expected"
    using download_continues_after_failures [where android = True
        and cacheDirectory = "''/cache/''" and envs = sample_envs and imgs = sample_batch]
    unfolding case_prod_beta by blast
  have saved: "count (fst ?run) = 2"
    using general by (simp add: sample_batch_saved)
  have ok: "success (fst ?run)"
    using general saved by simp
  have started: "lookups (snd ?run) = map image_url sample_batch"
    using general by blast
  have "RequestPermissions # ?expected = snd ?run"
    using general by simp
  then have calls: "?expected
      = [CacheLookup ''https://example.org/x.jpg'',
         DownloadAsync ''https://example.org/x.jpg'' ''/cache/x.jpg'',
         CreateAsset ''/cache/x.jpg'', GetAlbum, CreateAlbum,
         CacheLookup ''https://example.org/x.jpg'',
         DownloadAsync ''https://example.org/x.jpg'' ''/cache/x.jpg'',
         CacheLookup ''https://example.org/x.jpg'',
         DownloadAsync ''https://example.org/x.jpg'' ''/cache/x.jpg'',
         CreateAsset ''/cache/x.jpg'', GetAlbum, CreateAlbum]"
    by (simp add: sample_batch_run)
  have assets: "asset_calls (snd ?run) = 2"
    by (simp add: sample_batch_run)
  from saved ok started calls assets show ?thesis
    by blast
qed

section \<open>Bulk delete\<close>

text \<open>
  C10: for the empty list \<open>deleteMultipleRoomImages\<close> returns \<open>true\<close> and
  \<open>deleteMultipleFromCloudinary\<close> returns \<open>{success: true, deletedCount: 0}\<close>, and
  neither makes a remote call, whatever the services would have answered.
\<close>

theorem bulk_delete_empty:
  "deleteMultipleRoomImages publicId_of selected response deleted [] = (True, [])
   \<and> deleteMultipleFromCloudinary publicId_of response (Some [])
       = (\<lparr>deleted_ok = True, deletedCount = 0\<rparr>, [])"
  by (simp add: deleteMultipleRoomImages_def deleteMultipleFromCloudinary_def)

section \<open>Batch upload\<close>

declare upload_loop.simps [simp del]

lemma uploadRoomImage_resolves: "\<exists>newImage. uploadRoomImage outcome = Inr newImage"
  by (simp add: uploadRoomImage_def uploadRoomImage_body_def split: upload_outcome.splits)








lemma setUploadProgress_fields:
  "queue (setUploadProgress w v st) = queue st"
  "retries (setUploadProgress w v st) = retries st"
  "completedUploads (setUploadProgress w v st) = completedUploads st"
  "failedUploads (setUploadProgress w v st) = failedUploads st"
  "attempts (setUploadProgress w v st) = attempts st"
  "settled (setUploadProgress w v st) = settled st"
  by (simp_all add: setUploadProgress_def)

lemma run_timer_fields:
  "queue (run_timer n st) = queue st"
  "retries (run_timer n st) = retries st"
  "completedUploads (run_timer n st) = completedUploads st"
  "failedUploads (run_timer n st) = failedUploads st"
  "attempts (run_timer n st) = attempts st"
  "settled (run_timer n st) = settled st"
  by (induction n arbitrary: st; simp add: setUploadProgress_fields)+


text \<open>
  Since \<open>uploadRoomImage\<close> never rejects, an upload that settles always takes the
  \<open>try\<close> branch: it is counted as completed, whatever happened to it.
\<close>

lemma settle_upload_eq:
  "settle_upload env t uri st =
     setUploadProgress Resolved (real (completedUploads st + 1 + failedUploads st) / real t)
       ((run_timer (ticks_before env (settled st)) st)
          \<lparr>settled := settled st + 1, completedUploads := completedUploads st + 1\<rparr>)"
proof -
  obtain newImage where "uploadRoomImage (outcome_of env (settled st)) = Inr newImage"
    using uploadRoomImage_resolves by blast
  then show ?thesis
    by (simp add: settle_upload_def handle_settled_def Let_def run_timer_fields add.assoc)
qed

lemma settle_upload_fields:
  "queue (settle_upload env t uri st) = queue st"
  "retries (settle_upload env t uri st) = retries st"
  "completedUploads (settle_upload env t uri st) = completedUploads st + 1"
  "failedUploads (settle_upload env t uri st) = failedUploads st"
  "attempts (settle_upload env t uri st) = attempts st"
  "settled (settle_upload env t uri st) = settled st + 1"
  by (simp_all add: settle_upload_eq setUploadProgress_fields run_timer_fields)


lemma fold_settle_fields:
  "queue (fold (settle_upload env t) order st) = queue st"
  "retries (fold (settle_upload env t) order st) = retries st"
  "completedUploads (fold (settle_upload env t) order st) = completedUploads st + length order"
  "failedUploads (fold (settle_upload env t) order st) = failedUploads st"
  "attempts (fold (settle_upload env t) order st) = attempts st"
  by (induction order arbitrary: st; simp add: settle_upload_fields)+


lemma process_batch_fields:
  "queue (process_batch env t st) = drop batchSize (queue st)"
  "retries (process_batch env t st) = retries st"
  "completedUploads (process_batch env t st)
     = completedUploads st + length (take batchSize (queue st))"
  "failedUploads (process_batch env t st) = failedUploads st"
  "attempts (process_batch env t st) = attempts st @ take batchSize (queue st)"
  by (simp_all add: process_batch_def Let_def fold_settle_fields)



lemma upload_loop_fields:
  "queue (upload_loop env t st) = []
   \<and> retries (upload_loop env t st) = retries st
   \<and> completedUploads (upload_loop env t st) = completedUploads st + length (queue st)
   \<and> failedUploads (upload_loop env t st) = failedUploads st
   \<and> attempts (upload_loop env t st) = attempts st @ queue st"
proof (induction env t st rule: upload_loop.induct)
  case (1 env t st)
  show ?case
  proof (cases "0 < length (queue st)")
    case True
    with 1 show ?thesis
      by (subst (1 2 3 4 5) upload_loop.simps) (simp add: process_batch_fields)
  next
    case False
    then show ?thesis
      by (subst (1 2 3 4 5) upload_loop.simps) simp
  qed
qed


text \<open>
  The retry logic is in the handler: had the promise been rejected, the URI would have
  gone to the back of the queue while its count is below \<open>maxRetries\<close>, and would have
  been counted as failed afterwards.
\<close>

lemma rejected_upload_requeued:
  "(case retries st uri of None \<Rightarrow> 0 | Some n \<Rightarrow> n) < maxRetries \<Longrightarrow>
   queue (handle_settled t uri (Inl error) st) = queue st @ [uri]
   \<and> retries (handle_settled t uri (Inl error) st) uri
       = Some ((case retries st uri of None \<Rightarrow> 0 | Some n \<Rightarrow> n) + 1)
   \<and> failedUploads (handle_settled t uri (Inl error) st) = failedUploads st
   \<and> completedUploads (handle_settled t uri (Inl error) st) = completedUploads st"
  by (simp add: handle_settled_def Let_def)

lemma rejected_upload_exhausted:
  "\<not> (case retries st uri of None \<Rightarrow> 0 | Some n \<Rightarrow> n) < maxRetries \<Longrightarrow>
   queue (handle_settled t uri (Inl error) st) = queue st
   \<and> failedUploads (handle_settled t uri (Inl error) st) = failedUploads st + 1"
  by (simp add: handle_settled_def Let_def setUploadProgress_def)

text \<open>
  Every run of a batch of \<open>N\<close> files ends with \<open>completedUploads = N\<close> and
  \<open>failedUploads = 0\<close>, so the two counts add up to \<open>N\<close>; every file is handed to
  \<open>uploadRoomImage\<close> once, none is put back into the queue, and the toast is the one
  for a complete success.
\<close>

lemma upload_never_retries:
  assumes "uploadMultipleImages env uris = Some (st, report)"
  shows "completedUploads st = length uris \<and> failedUploads st = 0 \<and> attempts st = uris
    \<and> retries st = Map.empty \<and> queue st = [] \<and> report = AllUploaded"
proof -
  let ?loop = "upload_loop env (length uris) (initial_upload_state uris)"
  from assms have st: "st = setUploadProgress Snap 1 ?loop"
    and report: "report = batch_report_of (completedUploads st) (length uris)"
    by (auto simp add: uploadMultipleImages_def Let_def split: if_splits)
  have "queue ?loop = [] \<and> retries ?loop = Map.empty \<and> completedUploads ?loop = length uris
      \<and> failedUploads ?loop = 0 \<and> attempts ?loop = uris"
    using upload_loop_fields [of env "length uris" "initial_upload_state uris"]
    by (simp add: initial_upload_state_def)
  with st report show ?thesis
    by (simp add: setUploadProgress_fields batch_report_of_def)
qed

lemma upload_returns:
  "uris \<noteq> [] \<Longrightarrow> \<exists>st report. uploadMultipleImages env uris = Some (st, report)"
  by (simp add: uploadMultipleImages_def Let_def)

text \<open>
  C2 at a concrete input: a batch of two files in which the upload of the first file
  fails. \<open>uploadRoomImage\<close> catches the exception and returns \<open>null\<close>, so the batch
  takes the file as uploaded: it is handed to \<open>uploadRoomImage\<close> once, it is not put
  back into the queue, no retry is recorded, and the run ends with
  \<open>completedUploads = 2\<close>, \<open>failedUploads = 0\<close> and the toast for a complete
  success.
\<close>

theorem failed_upload_counted_as_completed:
  "uploadMultipleImages failing_upload_env [''file:///a.jpg'', ''file:///b.jpg'']
     = Some (\<lparr>queue = [], retries = Map.empty, completedUploads = 2, failedUploads = 0,
              uploadProgress = 1,
              progress_log = [(Reset, 0), (Resolved, 1 / 2), (Resolved, 1), (Snap, 1)],
              attempts = [''file:///a.jpg'', ''file:///b.jpg''], settled = 2\<rparr>,
             AllUploaded)"
  by (simp add: uploadMultipleImages_def initial_upload_state_def
        upload_loop.simps process_batch_def batchSize_def settle_upload_def handle_settled_def
        failing_upload_env_def
        uploadRoomImage_def uploadRoomImage_body_def setUploadProgress_def batch_report_of_def
        Let_def)





end
